theory Spec2Isabelle
  imports Main "HOL-Library.Sublist" "HOL-Library.AList"
begin

section \<open>The SHL API client (custom\_components/shl/api.py)\<close>

text \<open>
  The client is a Python class whose methods read and assign the fields of \<open>self\<close>,
  send HTTP requests through an aiohttp session, read the wall clock and write to a logger.
  Each method is embedded as a function that takes the client and an environment (clock,
  log, requests sent so far) and returns its result together with the client and the
  environment after the call. A raised exception is the \<open>Inl\<close> of the result.
\<close>

subsection \<open>Python values and exceptions\<close>

text \<open>
  The values the client handles at run time: what \<open>response.json()\<close> can return, the
  header dictionary or \<open>None\<close> that \<open>is_connected\<close> returns, and the bound method
  object that the expression \<open>self.is_connected\<close> (without a call) evaluates to.
  JSON numbers with a fraction are left out of the model.
\<close>

datatype pyval =
    PyNone
  | PyBool bool
  | PyInt int
  | PyStr string
  | PyList "pyval list"
  | PyDict "(string \<times> pyval) list"
  | PyMethod string

text \<open>
  The exception classes the \<open>except\<close> clauses of \<open>api_wrapper\<close> tell apart, and the
  ones the client's own expressions raise. \<open>OtherException\<close> stands for every other
  subclass of \<open>Exception\<close>.
\<close>

datatype exn =
    TimeoutError
  | KeyError
  | TypeError
  | ClientError
  | GaiError
  | ValueError
  | AttributeError
  | OtherException

text \<open>Truth value testing, as \<open>not\<close>, \<open>and\<close>, \<open>or\<close> and \<open>if\<close> apply it.\<close>

fun truthy :: "pyval \<Rightarrow> bool" where
  "truthy PyNone = False"
| "truthy (PyBool b) = b"
| "truthy (PyInt n) = (n \<noteq> 0)"
| "truthy (PyStr s) = (s \<noteq> [])"
| "truthy (PyList xs) = (xs \<noteq> [])"
| "truthy (PyDict kvs) = (kvs \<noteq> [])"
| "truthy (PyMethod m) = True"

text \<open>\<open>v[key]\<close> with a string key: only a dictionary can be subscripted by a string.\<close>

fun subscript :: "pyval \<Rightarrow> string \<Rightarrow> exn + pyval" where
  "subscript (PyDict kvs) k = (case map_of kvs k of None \<Rightarrow> Inl KeyError | Some v \<Rightarrow> Inr v)"
| "subscript v k = Inl TypeError"

subsection \<open>Strings\<close>

text \<open>Decimal rendering of an integer, as an f-string renders \<open>{season}\<close>.\<close>

definition digit_char :: "nat \<Rightarrow> char" where
  "digit_char d = char_of (48 + d)"

fun str_nat :: "nat \<Rightarrow> string" where
  "str_nat n = (if n < 10 then [digit_char n] else str_nat (n div 10) @ [digit_char (n mod 10)])"

declare str_nat.simps [simp del]

definition str_int :: "int \<Rightarrow> string" where
  "str_int i = (if i < 0 then CHR ''-'' # str_nat (nat (- i)) else str_nat (nat i))"

text \<open>\<open>sep.join(xs)\<close>.\<close>

fun join :: "string \<Rightarrow> string list \<Rightarrow> string" where
  "join sep [] = []"
| "join sep [x] = x"
| "join sep (x # y # ys) = x @ sep @ join sep (y # ys)"

subsection \<open>Module constants\<close>

definition NAME :: string where "NAME = ''SHL''"
definition VERSION :: string where "VERSION = ''0.0.1''"

type_synonym dict = "(string \<times> string) list"

definition user_agent :: string where
  "user_agent = NAME @ ''/'' @ VERSION"

definition HEADERS :: dict where
  "HEADERS = [(''Content-type'', ''application/json; charset=UTF-8''), (''User-Agent'', user_agent)]"

definition BASE_URL :: string where "BASE_URL = ''https://openapi.shl.se''"
definition AUTH :: string where "AUTH = ''/oauth2/token''"

subsection \<open>generate\_url\<close>

definition generate_url :: "string \<Rightarrow> int \<Rightarrow> string" where
  "generate_url query season =
     (if season \<noteq> 0 then BASE_URL @ ''/seasons/'' @ str_int season @ ''/'' @ query
      else BASE_URL @ ''/'' @ query)"

subsection \<open>More operations on values\<close>

text \<open>
  \<open>int(v)\<close>. A string is stripped of surrounding ASCII whitespace (space, tab, line feed,
  vertical tab, form feed, carriage return) and read as an optional sign followed by ASCII
  decimal digits (the digit-grouping underscores that Python also accepts are not
  modelled); \<open>None\<close>, lists, dictionaries and methods have no integer value.
\<close>

definition is_space :: "char \<Rightarrow> bool" where
  "is_space ch = (ch \<in> set [CHR '' '', CHR 0x09, CHR 0x0A, CHR 0x0B, CHR 0x0C, CHR 0x0D])"

definition is_digit :: "char \<Rightarrow> bool" where
  "is_digit ch = (48 \<le> (of_char ch :: nat) \<and> (of_char ch :: nat) \<le> 57)"

definition strip :: "string \<Rightarrow> string" where
  "strip s = rev (dropWhile is_space (rev (dropWhile is_space s)))"

fun digits_value :: "nat \<Rightarrow> string \<Rightarrow> nat option" where
  "digits_value acc [] = Some acc"
| "digits_value acc (ch # cs) =
     (if is_digit ch then digits_value (acc * 10 + (of_char ch - 48)) cs else None)"

definition unsigned_of_str :: "string \<Rightarrow> nat option" where
  "unsigned_of_str s = (if s = [] then None else digits_value 0 s)"

definition int_of_str :: "string \<Rightarrow> int option" where
  "int_of_str s =
     (let t = strip s in
      if t \<noteq> [] \<and> hd t = CHR ''-'' then map_option (\<lambda>n. - int n) (unsigned_of_str (tl t))
      else if t \<noteq> [] \<and> hd t = CHR ''+'' then map_option int (unsigned_of_str (tl t))
      else map_option int (unsigned_of_str t))"

fun py_int :: "pyval \<Rightarrow> exn + int" where
  "py_int (PyInt n) = Inr n"
| "py_int (PyBool b) = Inr (if b then 1 else 0)"
| "py_int (PyStr s) = (case int_of_str s of None \<Rightarrow> Inl ValueError | Some n \<Rightarrow> Inr n)"
| "py_int v = Inl TypeError"

text \<open>
  \<open>datetime + int\<close>. Times are counted in microseconds from \<open>datetime.min\<close>. A
  \<open>datetime\<close> can be added to a \<open>timedelta\<close> only: with an \<open>int\<close> on the right the
  addition raises \<open>TypeError\<close>, whatever the two operands are.
\<close>

type_synonym datetime = int

definition datetime_min :: datetime where
  "datetime_min = 0"

definition datetime_add_int :: "datetime \<Rightarrow> int \<Rightarrow> exn + datetime" where
  "datetime_add_int t n = Inl TypeError"

text \<open>\<open>s + v\<close> for a string \<open>s\<close>: only a string can be appended.\<close>

fun str_add :: "string \<Rightarrow> pyval \<Rightarrow> exn + string" where
  "str_add s (PyStr t) = Inr (s @ t)"
| "str_add s v = Inl TypeError"

text \<open>A dictionary of strings as a Python value, and the field \<open>_headers\<close>, which may be \<open>None\<close>.\<close>

definition dict_val :: "dict \<Rightarrow> pyval" where
  "dict_val d = PyDict (map (\<lambda>(k, v). (k, PyStr v)) d)"

fun headers_val :: "dict option \<Rightarrow> pyval" where
  "headers_val None = PyNone"
| "headers_val (Some d) = dict_val d"

text \<open>Whether \<open>for x in v\<close> can iterate over \<open>v\<close>.\<close>

fun iterable :: "pyval \<Rightarrow> bool" where
  "iterable (PyStr s) = True"
| "iterable (PyList xs) = True"
| "iterable (PyDict kvs) = True"
| "iterable v = False"

subsection \<open>Requests, the session, the log\<close>

text \<open>
  A request as the client hands it to the session: the verb is the session method called
  (\<open>get\<close>, \<open>put\<close>, \<open>patch\<close>, \<open>post\<close>), \<open>req_json\<close> is the \<open>json=\<close> argument (absent for
  \<open>get\<close>), \<open>req_headers\<close> the \<open>headers=\<close> argument, which is \<open>None\<close> when the client has
  no header set.
\<close>

record request =
  req_verb :: string
  req_url :: string
  req_headers :: "dict option"
  req_json :: "dict option"
  req_params :: dict

text \<open>
  Awaiting a session call raises or returns a response; awaiting \<open>response.json()\<close>
  raises or returns the parsed body.
\<close>

datatype response = Response (json_result: "exn + pyval")

type_synonym session = "request \<Rightarrow> exn + response"

datatype log_arg = ArgStr string | ArgExn exn

datatype log_record = LogError (log_format: string) (log_args: "log_arg list")

record client =
  self_client_id :: string
  self_client_secret :: string
  self_team_ids :: "string list"
  self_session :: session
  self_expires :: datetime
  self_headers :: "dict option"

record env =
  env_now :: datetime
  env_log :: "log_record list"
  env_sent :: "request list"

type_synonym 'a outcome = "(exn + 'a) \<times> client \<times> env"

definition init :: "string \<Rightarrow> string \<Rightarrow> string list \<Rightarrow> session \<Rightarrow> client" where
  "init client_id client_secret team_ids session =
     \<lparr>self_client_id = client_id, self_client_secret = client_secret,
      self_team_ids = team_ids, self_session = session,
      self_expires = datetime_min, self_headers = None\<rparr>"

subsection \<open>api\_wrapper\<close>

text \<open>The session call: the request goes out, and the session raises or responds.\<close>

definition await_session :: "client \<Rightarrow> env \<Rightarrow> request \<Rightarrow> (exn + response) \<times> env" where
  "await_session c w r = (self_session c r, w\<lparr>env_sent := env_sent w @ [r]\<rparr>)"

text \<open>\<open>headers or self._headers\<close>.\<close>

definition headers_or :: "dict \<Rightarrow> dict option \<Rightarrow> dict option" where
  "headers_or headers self_h = (if truthy (dict_val headers) then Some headers else self_h)"

text \<open>The four \<open>except\<close> clauses, in the order of the source.\<close>

fun log_exception :: "string \<Rightarrow> exn \<Rightarrow> log_record" where
  "log_exception url TimeoutError =
     LogError ''Timeout error fetching information from %s - %s'' [ArgStr url, ArgExn TimeoutError]"
| "log_exception url KeyError =
     LogError ''Error parsing information from %s - %s'' [ArgStr url, ArgExn KeyError]"
| "log_exception url TypeError =
     LogError ''Error parsing information from %s - %s'' [ArgStr url, ArgExn TypeError]"
| "log_exception url ClientError =
     LogError ''Error fetching information from %s - %s'' [ArgStr url, ArgExn ClientError]"
| "log_exception url GaiError =
     LogError ''Error fetching information from %s - %s'' [ArgStr url, ArgExn GaiError]"
| "log_exception url e =
     LogError ''Something really wrong happened! - %s'' [ArgExn e]"

definition except :: "string \<Rightarrow> exn \<Rightarrow> env \<Rightarrow> env" where
  "except url e w = w\<lparr>env_log := env_log w @ [log_exception url e]\<rparr>"

text \<open>
  The guard of the first statement, \<open>not headers and not self.is_connected\<close>: the second
  operand is the bound method itself, not a call of it.
\<close>

definition reconnect_guard :: "dict \<Rightarrow> bool" where
  "reconnect_guard headers =
     (\<not> truthy (dict_val headers) \<and> \<not> truthy (PyMethod ''is_connected''))"

text \<open>The body of a \<open>put\<close>, \<open>patch\<close> or \<open>post\<close> branch: the response is awaited and dropped.\<close>

definition write_request ::
  "client \<Rightarrow> env \<Rightarrow> string \<Rightarrow> string \<Rightarrow> dict \<Rightarrow> dict \<Rightarrow> dict \<Rightarrow> pyval outcome" where
  "write_request c w verb url data headers params =
     (case await_session c w
             \<lparr>req_verb = verb, req_url = url,
              req_headers = headers_or headers (self_headers c),
              req_json = Some data, req_params = params\<rparr> of
        (Inl e, w1) \<Rightarrow> (Inr PyNone, c, except url e w1)
      | (Inr resp, w1) \<Rightarrow> (Inr PyNone, c, w1))"

text \<open>
  The class has no attribute \<open>connect\<close> (the method is \<open>async_connect\<close>), so the
  statement under the guard would raise \<open>AttributeError\<close>, outside the \<open>try\<close>.
  The timeout context manager is taken to be entered normally; when it expires, the
  awaited session call is where \<open>asyncio.TimeoutError\<close> is raised.
\<close>

definition api_wrapper ::
  "client \<Rightarrow> env \<Rightarrow> string \<Rightarrow> string \<Rightarrow> dict \<Rightarrow> dict \<Rightarrow> dict \<Rightarrow> pyval outcome" where
  "api_wrapper c w method url data headers params =
     (if reconnect_guard headers then (Inl AttributeError, c, w)
      else if method = ''get'' then
        (case await_session c w
                \<lparr>req_verb = ''get'', req_url = url,
                 req_headers = headers_or headers (self_headers c),
                 req_json = None, req_params = params\<rparr> of
           (Inl e, w1) \<Rightarrow> (Inr PyNone, c, except url e w1)
         | (Inr resp, w1) \<Rightarrow>
             (case json_result resp of
                Inl e \<Rightarrow> (Inr PyNone, c, except url e w1)
              | Inr v \<Rightarrow> (Inr v, c, w1)))
      else if method = ''put'' then write_request c w ''put'' url data headers params
      else if method = ''patch'' then write_request c w ''patch'' url data headers params
      else if method = ''post'' then write_request c w ''post'' url data headers params
      else (Inr PyNone, c, w))"

subsection \<open>async\_connect and is\_connected\<close>

definition async_connect :: "client \<Rightarrow> env \<Rightarrow> pyval outcome" where
  "async_connect c w =
     (let form = [(''client_id'', self_client_id c),
                  (''client_secret'', self_client_secret c),
                  (''grant_type'', ''client_credentials'')];
          headers = [(''User-Agent'', user_agent)]
      in case api_wrapper c w ''post'' (BASE_URL @ AUTH) form headers [] of
        (Inl e, c1, w1) \<Rightarrow> (Inl e, c1, w1)
      | (Inr body, c1, w1) \<Rightarrow>
         (case subscript body ''expires_in'' of
            Inl e \<Rightarrow> (Inl e, c1, w1)
          | Inr v \<Rightarrow>
         (case py_int v of
            Inl e \<Rightarrow> (Inl e, c1, w1)
          | Inr n \<Rightarrow>
         (case datetime_add_int (env_now w1) n of
            Inl e \<Rightarrow> (Inl e, c1, w1)
          | Inr t \<Rightarrow>
         (let c2 = c1\<lparr>self_expires := t\<rparr>;
              c3 = c2\<lparr>self_headers := Some HEADERS\<rparr>
          in case subscript body ''access_token'' of
            Inl e \<Rightarrow> (Inl e, c3, w1)
          | Inr tok \<Rightarrow>
         (case str_add ''Bearer '' tok of
            Inl e \<Rightarrow> (Inl e, c3, w1)
          | Inr a \<Rightarrow>
              (Inr body,
               c3\<lparr>self_headers := Some (AList.update ''Authorization'' a HEADERS)\<rparr>,
               w1)))))))"

text \<open>
  \<open>self._headers and self._expires > datetime.now()\<close>: when the header field is falsy it
  is the value returned, and the clock is not read.
\<close>

definition is_connected :: "client \<Rightarrow> env \<Rightarrow> pyval \<times> client \<times> env" where
  "is_connected c w =
     (let h = headers_val (self_headers c)
      in if truthy h then (PyBool (env_now w < self_expires c), c, w) else (h, c, w))"

subsection \<open>The fetch operations\<close>

text \<open>
  Arguments with a default in the source (\<open>stat\<close>, \<open>team_ids\<close>, \<open>season\<close>) are passed
  explicitly. \<open>if team_ids:\<close> tests whether the list is non-empty. A call of
  \<open>api_wrapper\<close> without \<open>data\<close>, \<open>headers\<close> or \<open>params\<close> passes the empty dictionary.
\<close>

definition async_get_articles :: "client \<Rightarrow> env \<Rightarrow> string list \<Rightarrow> pyval outcome" where
  "async_get_articles c w team_ids =
     (let url = generate_url ''articles'' 0
      in if team_ids \<noteq> [] then
           (let params = [(''teamIds'', join '','' team_ids)]
            in api_wrapper c w ''get'' url [] [] params)
         else api_wrapper c w ''get'' url [] [] [])"

definition async_get_games :: "client \<Rightarrow> env \<Rightarrow> int \<Rightarrow> string list \<Rightarrow> pyval outcome" where
  "async_get_games c w season team_ids =
     (let url = generate_url ''games'' season
      in if team_ids \<noteq> [] then
           (let params = [(''teamIds'', join '','' (self_team_ids c))]
            in api_wrapper c w ''get'' url [] [] params)
         else api_wrapper c w ''get'' url [] [] [])"

definition async_get_game :: "client \<Rightarrow> env \<Rightarrow> int \<Rightarrow> string \<Rightarrow> pyval outcome" where
  "async_get_game c w season match_id =
     (let url = generate_url (''games/'' @ match_id @ ''.json'') season
      in api_wrapper c w ''get'' url [] [] [])"

definition async_get_player_stats ::
  "client \<Rightarrow> env \<Rightarrow> int \<Rightarrow> string \<Rightarrow> string list \<Rightarrow> pyval outcome" where
  "async_get_player_stats c w season stat team_ids =
     (let params = [(''sort'', stat)];
          params = (if team_ids \<noteq> [] then AList.update ''team_ids'' (join '','' team_ids) params
                    else params);
          url = generate_url ''statistics/players.json'' season
      in api_wrapper c w ''get'' url [] [] params)"

definition async_get_goalie_stats ::
  "client \<Rightarrow> env \<Rightarrow> int \<Rightarrow> string \<Rightarrow> string list \<Rightarrow> pyval outcome" where
  "async_get_goalie_stats c w season stat team_ids =
     (let url = generate_url ''statistics/goalkeepers.json'' season;
          params = [(''sort'', stat)];
          params = (if team_ids \<noteq> [] then AList.update ''team_ids'' (join '','' team_ids) params
                    else params)
      in api_wrapper c w ''get'' url [] [] params)"

definition async_get_teams :: "client \<Rightarrow> env \<Rightarrow> pyval outcome" where
  "async_get_teams c w =
     (let url = generate_url ''teams.json'' 0
      in api_wrapper c w ''get'' url [] [] [])"

definition async_get_team_stats :: "client \<Rightarrow> env \<Rightarrow> int \<Rightarrow> string list \<Rightarrow> pyval outcome" where
  "async_get_team_stats c w season team_ids =
     (let url = generate_url ''statistics/teams/standings.json'' season
      in if team_ids \<noteq> [] then
           api_wrapper c w ''get'' url [] [] [(''team_ids'', join '','' team_ids)]
         else api_wrapper c w ''get'' url [] [] [])"

definition async_get_team_player_stats :: "client \<Rightarrow> env \<Rightarrow> string \<Rightarrow> pyval outcome" where
  "async_get_team_player_stats c w team_code =
     (let url = generate_url (''teams/'' @ team_code @ ''.json'') 0
      in api_wrapper c w ''get'' url [] [] [])"

definition async_get_videos :: "client \<Rightarrow> env \<Rightarrow> string list \<Rightarrow> pyval outcome" where
  "async_get_videos c w team_ids =
     (let url = generate_url ''videos.json'' 0
      in if team_ids \<noteq> [] then
           api_wrapper c w ''get'' url [] [] [(''team_ids'', join '','' team_ids)]
         else api_wrapper c w ''get'' url [] [] [])"

text \<open>
  The two \<open>for\<close> loops of \<open>async_get_data\<close> have an empty body: all they can do is raise
  \<open>TypeError\<close> when a result cannot be iterated over.
\<close>

definition async_get_data :: "client \<Rightarrow> env \<Rightarrow> int \<Rightarrow> string list \<Rightarrow> pyval outcome" where
  "async_get_data c w season team_ids =
     (case async_get_games c w season team_ids of
        (Inl e, c1, w1) \<Rightarrow> (Inl e, c1, w1)
      | (Inr games, c1, w1) \<Rightarrow>
     (case async_get_articles c1 w1 team_ids of
        (Inl e, c2, w2) \<Rightarrow> (Inl e, c2, w2)
      | (Inr articles, c2, w2) \<Rightarrow>
          if \<not> iterable games then (Inl TypeError, c2, w2)
          else if \<not> iterable articles then (Inl TypeError, c2, w2)
          else (Inr PyNone, c2, w2)))"

subsection \<open>Vocabulary of the properties\<close>

text \<open>
  The request \<open>api_wrapper\<close> hands to the session for a verb it knows: the verb and URL
  given, the explicit headers or else the client's, the \<open>json=\<close> body for every verb but
  \<open>get\<close>, and the query parameters.
\<close>

definition request_of ::
  "client \<Rightarrow> string \<Rightarrow> string \<Rightarrow> dict \<Rightarrow> dict \<Rightarrow> dict \<Rightarrow> request" where
  "request_of c method url data headers params =
     \<lparr>req_verb = method, req_url = url,
      req_headers = headers_or headers (self_headers c),
      req_json = (if method = ''get'' then None else Some data),
      req_params = params\<rparr>"

text \<open>
  The failure categories of the specification and the message prefix of each, as the tests
  look for them in the log. A category is decided by the class of the exception.
\<close>

datatype category = Timeout | NetworkError | ParseError | UnknownError

fun spec_category :: "exn \<Rightarrow> category" where
  "spec_category TimeoutError = Timeout"
| "spec_category ClientError = NetworkError"
| "spec_category GaiError = NetworkError"
| "spec_category KeyError = ParseError"
| "spec_category TypeError = ParseError"
| "spec_category e = UnknownError"

fun spec_prefix :: "category \<Rightarrow> string" where
  "spec_prefix Timeout = ''Timeout error fetching information from''"
| "spec_prefix NetworkError = ''Error fetching information from''"
| "spec_prefix ParseError = ''Error parsing information from''"
| "spec_prefix UnknownError = ''Something really wrong happened!''"

text \<open>A token endpoint that answers every request with a well-formed token document.\<close>

definition token_body :: pyval where
  "token_body = PyDict [(''expires_in'', PyInt 1800), (''access_token'', PyStr ''T'')]"

definition token_session :: session where
  "token_session = (\<lambda>r. Inr (Response (Inr token_body)))"

definition env0 :: env where
  "env0 = \<lparr>env_now = 1000, env_log = [], env_sent = []\<rparr>"

section \<open>Properties\<close>

subsection \<open>Auxiliary facts\<close>

lemmas model_defs = api_wrapper_def write_request_def await_session_def except_def
  headers_or_def dict_val_def request_of_def

lemma str_nat_2022: "str_nat 2022 = ''2022''"
  by code_simp

lemma guard_false: "\<not> reconnect_guard headers"
  by (simp add: reconnect_guard_def)

lemma verbs_not_get: "''put'' \<noteq> ''get''" "''patch'' \<noteq> ''get''" "''post'' \<noteq> ''get''"
  by simp_all

lemma api_wrapper_put:
  "api_wrapper c w ''put'' url data headers params =
     write_request c w ''put'' url data headers params"
  by (simp add: api_wrapper_def guard_false)

lemma api_wrapper_patch:
  "api_wrapper c w ''patch'' url data headers params =
     write_request c w ''patch'' url data headers params"
  by (simp add: api_wrapper_def guard_false)

lemma api_wrapper_post:
  "api_wrapper c w ''post'' url data headers params =
     write_request c w ''post'' url data headers params"
  by (simp add: api_wrapper_def guard_false)

lemma write_request_raise:
  assumes "verb \<noteq> ''get''"
    and "self_session c (request_of c verb url data headers params) = Inl e"
  shows "write_request c w verb url data headers params =
           (Inr PyNone, c,
            w\<lparr>env_sent := env_sent w @ [request_of c verb url data headers params],
              env_log := env_log w @ [log_exception url e]\<rparr>)"
  using assms
  by (simp add: write_request_def await_session_def except_def request_of_def)

lemma write_request_sent:
  assumes "verb \<noteq> ''get''"
  shows "fst (write_request c w verb url data headers params) = Inr PyNone"
    and "env_sent (snd (snd (write_request c w verb url data headers params))) =
           env_sent w @ [request_of c verb url data headers params]"
  using assms
  by (simp_all add: write_request_def await_session_def except_def request_of_def
      split: sum.splits)

lemma write_request_client:
  "fst (snd (write_request c w verb url data headers params)) = c"
  by (simp add: write_request_def await_session_def split: sum.splits)

lemma api_wrapper_get_raise:
  assumes "self_session c (request_of c ''get'' url data headers params) = Inl e"
  shows "api_wrapper c w ''get'' url data headers params =
           (Inr PyNone, c,
            w\<lparr>env_sent := env_sent w @ [request_of c ''get'' url data headers params],
              env_log := env_log w @ [log_exception url e]\<rparr>)"
  using assms by (simp add: model_defs guard_false)

lemma api_wrapper_get_json_raise:
  assumes "self_session c (request_of c ''get'' url data headers params)
             = Inr (Response (Inl e))"
  shows "api_wrapper c w ''get'' url data headers params =
           (Inr PyNone, c,
            w\<lparr>env_sent := env_sent w @ [request_of c ''get'' url data headers params],
              env_log := env_log w @ [log_exception url e]\<rparr>)"
  using assms by (simp add: model_defs guard_false)

lemma api_wrapper_get_json:
  assumes "self_session c (request_of c ''get'' url data headers params)
             = Inr (Response (Inr v))"
  shows "api_wrapper c w ''get'' url data headers params =
           (Inr v, c,
            w\<lparr>env_sent := env_sent w @ [request_of c ''get'' url data headers params]\<rparr>)"
  using assms by (simp add: model_defs guard_false)

lemma api_wrapper_get_sent:
  "env_sent (snd (snd (api_wrapper c w ''get'' url data headers params))) =
     env_sent w @ [request_of c ''get'' url data headers params]"
  by (simp add: model_defs guard_false split: sum.splits)

lemma api_wrapper_client:
  "fst (snd (api_wrapper c w method url data headers params)) = c"
  by (simp add: api_wrapper_def write_request_client await_session_def guard_false
      split: sum.splits prod.splits)

lemma log_prefix:
  "prefix (spec_prefix (spec_category e)) (log_format (log_exception url e))"
  by (cases e) simp_all

text \<open>
  A \<open>post\<close> never returns a payload, so \<open>async_connect\<close> subscripts \<open>None\<close>: it raises
  \<open>TypeError\<close> before the first assignment to a field, whatever the session does.
\<close>

lemma async_connect_raises:
  "fst (async_connect c w) = Inl TypeError \<and> fst (snd (async_connect c w)) = c"
proof -
  let ?form = "[(''client_id'', self_client_id c), (''client_secret'', self_client_secret c),
                (''grant_type'', ''client_credentials'')]"
  let ?call = "api_wrapper c w ''post'' (BASE_URL @ AUTH) ?form [(''User-Agent'', user_agent)] []"
  have "fst ?call = Inr PyNone"
    by (simp only: api_wrapper_post write_request_sent(1) [OF verbs_not_get(3)])
  moreover have "fst (snd ?call) = c"
    by (rule api_wrapper_client)
  ultimately obtain w1 where "?call = (Inr PyNone, c, w1)"
    by (cases ?call) auto
  then show ?thesis by (simp add: async_connect_def)
qed

text \<open>
  No operation installs an empty header dictionary: the field is \<open>None\<close> at construction
  and keeps its value through every call.
\<close>

lemma headers_never_empty:
  "self_headers (init client_id client_secret team_ids session) \<noteq> Some []"
  "self_headers c \<noteq> Some [] \<Longrightarrow> self_headers (fst (snd (async_connect c w))) \<noteq> Some []"
  "self_headers c \<noteq> Some [] \<Longrightarrow>
     self_headers (fst (snd (api_wrapper c w method url data headers params))) \<noteq> Some []"
  by (simp_all add: init_def async_connect_raises api_wrapper_client)

text \<open>
  Five of the six team-scoped operations send the comma-join of the list they are given,
  and all six send no scoping parameter for the empty list.
\<close>

lemma scoped_fetches_join:
  assumes "team_ids \<noteq> []"
  shows "map_of (req_params (last (env_sent (snd (snd (async_get_articles c w team_ids))))))
           ''teamIds'' = Some (join '','' team_ids)"
    and "map_of (req_params (last (env_sent (snd (snd
           (async_get_player_stats c w season stat team_ids)))))) ''team_ids''
           = Some (join '','' team_ids)"
    and "map_of (req_params (last (env_sent (snd (snd
           (async_get_goalie_stats c w season stat team_ids)))))) ''team_ids''
           = Some (join '','' team_ids)"
    and "map_of (req_params (last (env_sent (snd (snd
           (async_get_team_stats c w season team_ids)))))) ''team_ids''
           = Some (join '','' team_ids)"
    and "map_of (req_params (last (env_sent (snd (snd (async_get_videos c w team_ids))))))
           ''team_ids'' = Some (join '','' team_ids)"
  using assms
  by (simp_all add: async_get_articles_def async_get_player_stats_def
      async_get_goalie_stats_def async_get_team_stats_def async_get_videos_def
      api_wrapper_get_sent request_of_def Let_def)

lemma unscoped_fetches_omit:
  "req_params (last (env_sent (snd (snd (async_get_articles c w []))))) = []"
  "req_params (last (env_sent (snd (snd (async_get_games c w season []))))) = []"
  "req_params (last (env_sent (snd (snd (async_get_player_stats c w season stat [])))))
     = [(''sort'', stat)]"
  "req_params (last (env_sent (snd (snd (async_get_goalie_stats c w season stat [])))))
     = [(''sort'', stat)]"
  "req_params (last (env_sent (snd (snd (async_get_team_stats c w season []))))) = []"
  "req_params (last (env_sent (snd (snd (async_get_videos c w []))))) = []"
  by (simp_all add: async_get_articles_def async_get_games_def async_get_player_stats_def
      async_get_goalie_stats_def async_get_team_stats_def async_get_videos_def
      api_wrapper_get_sent request_of_def Let_def)

lemma fetch_client:
  "fst (snd (async_get_articles c w team_ids)) = c"
  "fst (snd (async_get_games c w season team_ids)) = c"
  "fst (snd (async_get_game c w season match_id)) = c"
  "fst (snd (async_get_player_stats c w season stat team_ids)) = c"
  "fst (snd (async_get_goalie_stats c w season stat team_ids)) = c"
  "fst (snd (async_get_teams c w)) = c"
  "fst (snd (async_get_team_stats c w season team_ids)) = c"
  "fst (snd (async_get_team_player_stats c w team_code)) = c"
  "fst (snd (async_get_videos c w team_ids)) = c"
  by (simp_all add: async_get_articles_def async_get_games_def async_get_game_def
      async_get_player_stats_def async_get_goalie_stats_def async_get_teams_def
      async_get_team_stats_def async_get_team_player_stats_def async_get_videos_def
      api_wrapper_client Let_def)

lemma async_get_data_client: "fst (snd (async_get_data c w season team_ids)) = c"
proof -
  obtain r1 c1 w1 where g: "async_get_games c w season team_ids = (r1, c1, w1)"
    by (cases "async_get_games c w season team_ids") auto
  with fetch_client(2) [of c w season team_ids] have c1: "c1 = c" by simp
  obtain r2 c2 w2 where a: "async_get_articles c w1 team_ids = (r2, c2, w2)"
    by (cases "async_get_articles c w1 team_ids") auto
  with fetch_client(1) [of c w1 team_ids] have c2: "c2 = c" by simp
  show ?thesis
    by (simp add: async_get_data_def g a c1 c2 split: sum.splits)
qed

subsection \<open>connect\<close>

text \<open>
  C1. The claim: when the token endpoint answers with a JSON body holding an integer
  \<open>expires_in\<close> and a string \<open>access_token\<close>, \<open>connect\<close> stores the expiry (now plus
  \<open>expires_in\<close>), installs the headers with \<open>Authorization: Bearer token\<close> and returns the
  body. What the code does: the \<open>post\<close> branch of \<open>api_wrapper\<close> returns no payload, so
  \<open>async_connect\<close> raises \<open>TypeError\<close> at \<open>body['expires_in']\<close> for every client and
  every environment and leaves the client as it was; with a session that answers
  \<open>{"expires_in": 1800, "access_token": "T"}\<close>, the token request goes out and the call
  raises, the expiry and the headers still those of a fresh client.
\<close>

theorem connect_raises_on_success:
  "fst (async_connect c w) = Inl TypeError
   \<and> fst (snd (async_connect c w)) = c
   \<and> async_connect (init ''id'' ''secret'' [''HV71''] token_session) env0 =
       (Inl TypeError, init ''id'' ''secret'' [''HV71''] token_session,
        env0\<lparr>env_sent :=
          [\<lparr>req_verb = ''post'', req_url = ''https://openapi.shl.se/oauth2/token'',
            req_headers = Some [(''User-Agent'', ''SHL/0.0.1'')],
            req_json = Some [(''client_id'', ''id''), (''client_secret'', ''secret''),
                             (''grant_type'', ''client_credentials'')],
            req_params = []\<rparr>]\<rparr>)
   \<and> self_headers (fst (snd (async_connect (init ''id'' ''secret'' [''HV71''] token_session) env0)))
       = None
   \<and> self_expires (fst (snd (async_connect (init ''id'' ''secret'' [''HV71''] token_session) env0)))
       = datetime_min"
proof -
  have run: "async_connect (init ''id'' ''secret'' [''HV71''] token_session) env0 =
       (Inl TypeError, init ''id'' ''secret'' [''HV71''] token_session,
        env0\<lparr>env_sent :=
          [\<lparr>req_verb = ''post'', req_url = ''https://openapi.shl.se/oauth2/token'',
            req_headers = Some [(''User-Agent'', ''SHL/0.0.1'')],
            req_json = Some [(''client_id'', ''id''), (''client_secret'', ''secret''),
                             (''grant_type'', ''client_credentials'')],
            req_params = []\<rparr>]\<rparr>)"
    by (simp add: async_connect_def model_defs guard_false init_def token_session_def env0_def
        BASE_URL_def AUTH_def user_agent_def NAME_def VERSION_def)
  have fresh: "self_headers (init ''id'' ''secret'' [''HV71''] token_session) = None"
    "self_expires (init ''id'' ''secret'' [''HV71''] token_session) = datetime_min"
    by (simp_all add: init_def)
  from run fresh show ?thesis
    using async_connect_raises [of c w] by simp
qed

text \<open>
  C2. The claim: when the token exchange fails (timeout, malformed JSON or missing keys,
  network error), \<open>connect\<close> raises nothing and returns nothing, the failure being logged
  only. What the code does: \<open>api_wrapper\<close> catches the exception \<open>e\<close> of the session, logs
  it once and returns \<open>None\<close>; \<open>async_connect\<close> then subscripts that \<open>None\<close> outside any
  \<open>try\<close> and raises \<open>TypeError\<close> to its caller.
\<close>

theorem connect_raises_on_failure:
  "async_connect (c\<lparr>self_session := (\<lambda>r. Inl e)\<rparr>) w =
     (Inl TypeError, c\<lparr>self_session := (\<lambda>r. Inl e)\<rparr>,
      w\<lparr>env_sent := env_sent w @
           [\<lparr>req_verb = ''post'', req_url = BASE_URL @ AUTH,
             req_headers = Some [(''User-Agent'', user_agent)],
             req_json = Some [(''client_id'', self_client_id c),
                              (''client_secret'', self_client_secret c),
                              (''grant_type'', ''client_credentials'')],
             req_params = []\<rparr>],
         env_log := env_log w @ [log_exception (BASE_URL @ AUTH) e]\<rparr>)"
  by (simp add: async_connect_def model_defs guard_false)

subsection \<open>is\_connected\<close>

text \<open>
  C3. For every client state, \<open>is_connected\<close> returns true if and only if a header set
  exists and the current time is strictly before the stored expiry; on a freshly
  constructed client it is false; the call sends nothing, logs nothing and leaves the
  client as it is. The header field is \<open>None\<close> or a dictionary with entries (no operation
  stores an empty one, see \<open>headers_never_empty\<close>). The value returned is \<open>True\<close> exactly
  under the condition, and otherwise a falsy value (\<open>False\<close>, or \<open>None\<close> when there is no
  header set).
\<close>

theorem is_connected_iff:
  assumes "self_headers c \<noteq> Some []"
  shows "(fst (is_connected c w) = PyBool True
            \<longleftrightarrow> self_headers c \<noteq> None \<and> env_now w < self_expires c)
         \<and> (truthy (fst (is_connected c w))
            \<longleftrightarrow> self_headers c \<noteq> None \<and> env_now w < self_expires c)
         \<and> \<not> truthy (fst (is_connected (init client_id client_secret team_ids session) w))
         \<and> snd (is_connected c w) = (c, w)"
  using assms
  by (cases "self_headers c") (auto simp: is_connected_def dict_val_def init_def Let_def)

theorem is_connected_iff_witness:
  "self_headers (init ''id'' ''secret'' [''HV71''] token_session
       \<lparr>self_expires := 2000, self_headers := Some [(''Authorization'', ''Bearer T'')]\<rparr>)
     \<noteq> Some []
   \<and> fst (is_connected (init ''id'' ''secret'' [''HV71''] token_session
       \<lparr>self_expires := 2000, self_headers := Some [(''Authorization'', ''Bearer T'')]\<rparr>) env0)
     = PyBool True
   \<and> \<not> truthy (fst (is_connected (init ''id'' ''secret'' [''HV71''] token_session) env0))"
  using is_connected_iff [of "init ''id'' ''secret'' [''HV71''] token_session
       \<lparr>self_expires := 2000, self_headers := Some [(''Authorization'', ''Bearer T'')]\<rparr>"
       env0 "''id''" "''secret''" "[''HV71'']" token_session]
  by (simp add: init_def env0_def)

subsection \<open>generate\_url\<close>

text \<open>
  C4. For every resource path and integer season, \<open>generate_url\<close> returns
  base/seasons/season/path when the season is not zero and base/path when it is zero.
  With the base URL of the module, \<open>generate_url("games.json", 0)\<close> is
  \<open>https://openapi.shl.se/games.json\<close> and \<open>generate_url("games.json", 2022)\<close> is
  \<open>https://openapi.shl.se/seasons/2022/games.json\<close>.
\<close>

theorem generate_url_template:
  "generate_url path season =
     (if season = 0 then BASE_URL @ ''/'' @ path
      else BASE_URL @ ''/seasons/'' @ str_int season @ ''/'' @ path)
   \<and> generate_url ''games.json'' 0 = ''https://openapi.shl.se/games.json''
   \<and> generate_url ''games.json'' 2022 = ''https://openapi.shl.se/seasons/2022/games.json''"
  by (simp add: generate_url_def BASE_URL_def str_int_def str_nat_2022)

subsection \<open>Team scoping\<close>

text \<open>
  C5. The claim: every team-scoped fetch sends, for a non-empty list of team ids, a
  scoping parameter whose value is the comma-join of the ids passed, and no scoping
  parameter for the empty list. What the code does in \<open>async_get_games\<close>: the list passed
  only decides whether the parameter is sent, and its value is the join of the team ids
  the client was constructed with. A client constructed with \<open>["HV71"]\<close> and asked for the
  games of \<open>["LHC"]\<close> sends \<open>teamIds=HV71\<close>, not \<open>LHC\<close>; a client constructed with no team
  ids sends the empty string.
\<close>

theorem games_scoped_by_configured_teams:
  "env_sent (snd (snd (async_get_games (init ''id'' ''secret'' [''HV71''] session) env0
                         2022 [''LHC'']))) =
     [\<lparr>req_verb = ''get'', req_url = ''https://openapi.shl.se/seasons/2022/games'',
       req_headers = None, req_json = None, req_params = [(''teamIds'', ''HV71'')]\<rparr>]
   \<and> join '','' [''LHC''] = ''LHC''
   \<and> env_sent (snd (snd (async_get_games (init ''id'' ''secret'' [] session) env0
                         2022 [''LHC'']))) =
     [\<lparr>req_verb = ''get'', req_url = ''https://openapi.shl.se/seasons/2022/games'',
       req_headers = None, req_json = None, req_params = [(''teamIds'', [])]\<rparr>]"
  by (simp add: async_get_games_def api_wrapper_get_sent request_of_def init_def env0_def
      generate_url_def BASE_URL_def str_int_def str_nat_2022 headers_or_def dict_val_def)

subsection \<open>api\_wrapper\<close>

text \<open>
  C6. For every call of \<open>api_wrapper\<close> with one of its four verbs in which the session
  call raises an exception \<open>e\<close>, or in which reading the JSON body of a \<open>get\<close> raises
  \<open>e\<close>: the call raises nothing and returns \<open>None\<close>, the client is unchanged, the request
  was sent, and exactly one record is added to the log, whose message starts with the
  prefix of the category of \<open>e\<close> (timeout, network error, parse error, or the catch-all
  for any other exception).
\<close>

theorem api_wrapper_failure_logged:
  assumes m: "method \<in> {''get'', ''put'', ''patch'', ''post''}"
    and f: "self_session c (request_of c method url data headers params) = Inl e
         \<or> (method = ''get'' \<and>
            self_session c (request_of c method url data headers params)
              = Inr (Response (Inl e)))"
  shows "api_wrapper c w method url data headers params =
           (Inr PyNone, c,
            w\<lparr>env_sent := env_sent w @ [request_of c method url data headers params],
              env_log := env_log w @ [log_exception url e]\<rparr>)
         \<and> prefix (spec_prefix (spec_category e)) (log_format (log_exception url e))"
proof -
  from m consider (get) "method = ''get''" | (put) "method = ''put''"
    | (patch) "method = ''patch''" | (post) "method = ''post''"
    by blast
  then have "api_wrapper c w method url data headers params =
           (Inr PyNone, c,
            w\<lparr>env_sent := env_sent w @ [request_of c method url data headers params],
              env_log := env_log w @ [log_exception url e]\<rparr>)"
  proof cases
    case get
    with f show ?thesis
      using api_wrapper_get_raise api_wrapper_get_json_raise by blast
  next
    case put
    with f verbs_not_get
    have "self_session c (request_of c ''put'' url data headers params) = Inl e"
      by blast
    with put show ?thesis
      by (simp only: api_wrapper_put write_request_raise [OF verbs_not_get(1)])
  next
    case patch
    with f verbs_not_get
    have "self_session c (request_of c ''patch'' url data headers params) = Inl e"
      by blast
    with patch show ?thesis
      by (simp only: api_wrapper_patch write_request_raise [OF verbs_not_get(2)])
  next
    case post
    with f verbs_not_get
    have "self_session c (request_of c ''post'' url data headers params) = Inl e"
      by blast
    with post show ?thesis
      by (simp only: api_wrapper_post write_request_raise [OF verbs_not_get(3)])
  qed
  with log_prefix show ?thesis by blast
qed

theorem api_wrapper_failure_logged_witness:
  "''put'' \<in> {''get'', ''put'', ''patch'', ''post''}
   \<and> self_session (init ''id'' ''secret'' [''HV71''] (\<lambda>r. Inl TimeoutError))
        (request_of (init ''id'' ''secret'' [''HV71''] (\<lambda>r. Inl TimeoutError))
           ''put'' ''https://jsonplaceholder.typicode.com/posts/1'' [] [] [])
       = Inl TimeoutError
   \<and> api_wrapper (init ''id'' ''secret'' [''HV71''] (\<lambda>r. Inl TimeoutError)) env0
        ''put'' ''https://jsonplaceholder.typicode.com/posts/1'' [] [] [] =
       (Inr PyNone, init ''id'' ''secret'' [''HV71''] (\<lambda>r. Inl TimeoutError),
        \<lparr>env_now = 1000,
         env_log = [LogError ''Timeout error fetching information from %s - %s''
                      [ArgStr ''https://jsonplaceholder.typicode.com/posts/1'',
                       ArgExn TimeoutError]],
         env_sent = [\<lparr>req_verb = ''put'',
                      req_url = ''https://jsonplaceholder.typicode.com/posts/1'',
                      req_headers = None, req_json = Some [], req_params = []\<rparr>]\<rparr>)"
  using api_wrapper_failure_logged
    [of "''put''" "init ''id'' ''secret'' [''HV71''] (\<lambda>r. Inl TimeoutError)"
        "''https://jsonplaceholder.typicode.com/posts/1''" "[]" "[]" "[]" TimeoutError env0]
  by (simp add: init_def env0_def request_of_def headers_or_def dict_val_def)

text \<open>
  C7. For every call of \<open>api_wrapper\<close>, with or without explicit headers and whatever the
  state of the client, the guard of the reconnect branch is false: the branch is never
  taken. The call never raises the \<open>AttributeError\<close> that the statement under the guard
  would raise, and the only request it can send is the one made of its own arguments.
\<close>

theorem reconnect_never_taken:
  "\<not> reconnect_guard headers
   \<and> fst (api_wrapper c w method url data headers params) \<noteq> Inl AttributeError
   \<and> (env_sent (snd (snd (api_wrapper c w method url data headers params))) = env_sent w
      \<or> env_sent (snd (snd (api_wrapper c w method url data headers params))) =
           env_sent w @ [request_of c method url data headers params])"
proof -
  have g: "\<not> reconnect_guard headers"
    by (simp add: reconnect_guard_def)
  have r: "fst (api_wrapper c w method url data headers params) \<noteq> Inl AttributeError"
    by (simp add: api_wrapper_def write_request_sent(1) [OF verbs_not_get(1)]
        write_request_sent(1) [OF verbs_not_get(2)] write_request_sent(1) [OF verbs_not_get(3)]
        await_session_def g split: sum.splits prod.splits)
  have s: "env_sent (snd (snd (api_wrapper c w method url data headers params))) = env_sent w
      \<or> env_sent (snd (snd (api_wrapper c w method url data headers params))) =
           env_sent w @ [request_of c method url data headers params]"
  proof (cases "method = ''get''")
    case True
    then show ?thesis by (simp add: api_wrapper_get_sent)
  next
    case False
    then show ?thesis
      by (simp add: api_wrapper_def write_request_sent g)
  qed
  from g r s show ?thesis by blast
qed

text \<open>
  C8. For every call of \<open>api_wrapper\<close> with the verb \<open>get\<close> in which the session returns a
  response whose body parses as JSON to \<open>v\<close>, the call returns exactly \<open>v\<close> (and logs
  nothing); for every call with the verb \<open>put\<close>, \<open>patch\<close> or \<open>post\<close> the request is sent
  and the call returns \<open>None\<close>.
\<close>

theorem api_wrapper_results:
  "(self_session c (request_of c ''get'' url data headers params) = Inr (Response (Inr v))
      \<longrightarrow> api_wrapper c w ''get'' url data headers params =
            (Inr v, c,
             w\<lparr>env_sent := env_sent w @ [request_of c ''get'' url data headers params]\<rparr>))
   \<and> (method \<in> {''put'', ''patch'', ''post''}
      \<longrightarrow> fst (api_wrapper c w method url data headers params) = Inr PyNone
          \<and> env_sent (snd (snd (api_wrapper c w method url data headers params))) =
              env_sent w @ [request_of c method url data headers params])"
proof -
  have "method \<in> {''put'', ''patch'', ''post''}
      \<Longrightarrow> fst (api_wrapper c w method url data headers params) = Inr PyNone
          \<and> env_sent (snd (snd (api_wrapper c w method url data headers params))) =
              env_sent w @ [request_of c method url data headers params]"
    using write_request_sent [OF verbs_not_get(1)] write_request_sent [OF verbs_not_get(2)]
      write_request_sent [OF verbs_not_get(3)]
      api_wrapper_put api_wrapper_patch api_wrapper_post
    by (metis insertE singletonD)
  then show ?thesis using api_wrapper_get_json by blast
qed

theorem api_wrapper_results_witness:
  "self_session (init ''id'' ''secret'' [''HV71'']
        (\<lambda>r. Inr (Response (Inr (PyDict [(''test'', PyStr ''me'')])))))
       (request_of (init ''id'' ''secret'' [''HV71'']
            (\<lambda>r. Inr (Response (Inr (PyDict [(''test'', PyStr ''me'')])))))
          ''get'' ''https://openapi.shl.se/seasons/2022/games'' [] [] [])
     = Inr (Response (Inr (PyDict [(''test'', PyStr ''me'')])))
   \<and> fst (api_wrapper (init ''id'' ''secret'' [''HV71'']
            (\<lambda>r. Inr (Response (Inr (PyDict [(''test'', PyStr ''me'')]))))) env0
        ''get'' ''https://openapi.shl.se/seasons/2022/games'' [] [] [])
     = Inr (PyDict [(''test'', PyStr ''me'')])
   \<and> ''post'' \<in> {''put'', ''patch'', ''post''}
   \<and> fst (api_wrapper (init ''id'' ''secret'' [''HV71'']
            (\<lambda>r. Inr (Response (Inr (PyDict [(''test'', PyStr ''me'')]))))) env0
        ''post'' ''https://openapi.shl.se/seasons/2022/games'' [] [] [])
     = Inr PyNone"
  using api_wrapper_results
    [of "init ''id'' ''secret'' [''HV71'']
           (\<lambda>r. Inr (Response (Inr (PyDict [(''test'', PyStr ''me'')]))))"
        "''https://openapi.shl.se/seasons/2022/games''" "[]" "[]" "[]"
        "PyDict [(''test'', PyStr ''me'')]" env0 "''post''"]
  by (simp add: init_def)

text \<open>
  C9. The token state of the client (the header set with the bearer token, and the expiry)
  is left unchanged by \<open>api_wrapper\<close> and by every fetch operation: each of them returns
  the client it was given, with every field as it was.
\<close>

theorem token_state_frame:
  "fst (snd (api_wrapper c w method url data headers params)) = c
   \<and> fst (snd (async_get_articles c w team_ids)) = c
   \<and> fst (snd (async_get_games c w season team_ids)) = c
   \<and> fst (snd (async_get_game c w season match_id)) = c
   \<and> fst (snd (async_get_player_stats c w season stat team_ids)) = c
   \<and> fst (snd (async_get_goalie_stats c w season stat team_ids)) = c
   \<and> fst (snd (async_get_teams c w)) = c
   \<and> fst (snd (async_get_team_stats c w season team_ids)) = c
   \<and> fst (snd (async_get_team_player_stats c w team_code)) = c
   \<and> fst (snd (async_get_videos c w team_ids)) = c
   \<and> fst (snd (async_get_data c w season team_ids)) = c"
  by (simp only: api_wrapper_client fetch_client async_get_data_client simp_thms)

text \<open>
  C10. For every call of \<open>api_wrapper\<close> with a method string other than \<open>get\<close>, \<open>put\<close>,
  \<open>patch\<close> and \<open>post\<close>, no request is sent, nothing is logged, nothing is raised and the
  call returns \<open>None\<close>: the client and the environment are as before.
\<close>

theorem unknown_method_noop:
  assumes "method \<notin> {''get'', ''put'', ''patch'', ''post''}"
  shows "api_wrapper c w method url data headers params = (Inr PyNone, c, w)"
  using assms by (simp add: api_wrapper_def guard_false)

theorem unknown_method_noop_witness:
  "''delete'' \<notin> {''get'', ''put'', ''patch'', ''post''}
   \<and> api_wrapper (init ''id'' ''secret'' [''HV71''] token_session) env0 ''delete''
        ''https://openapi.shl.se/teams.json'' [] [] [] =
       (Inr PyNone, init ''id'' ''secret'' [''HV71''] token_session, env0)"
  using unknown_method_noop [of "''delete''" "init ''id'' ''secret'' [''HV71''] token_session"
      env0 "''https://openapi.shl.se/teams.json''" "[]" "[]" "[]"]
  by simp

end
